theory Spec2Isabelle
  imports Complex_Main "HOL-Library.Multiset" "HOL-Library.Product_Lexorder"
begin

section \<open>Data model\<close>

text \<open>
  The verifier dashboard (\<^verbatim>\<open>VerifierDashboard.tsx\<close>) works on five tables of the store
  through the Supabase client. A table is the list of its rows. A nullable column is an
  \<open>option\<close>; a timestamp column is the instant it denotes, as an integer count of
  milliseconds; a JavaScript \<^verbatim>\<open>number\<close> that the component only copies is a \<open>real\<close>.
  The columns \<^verbatim>\<open>area_hectares\<close> and \<^verbatim>\<open>estimated_credits\<close> are taken to hold values that a
  JavaScript \<^verbatim>\<open>number\<close> holds exactly, so that reading a row into memory changes none of
  them; what the component inserts is the value it holds in memory.
  Identifiers (UUIDs) and status columns are strings, as the component declares them.
\<close>

type_synonym timestamp = int

record profile_row =
  pf_id :: string
  pf_user_id :: string
  pf_full_name :: string
  pf_organization :: "string option"
  pf_role :: string

record project_row =
  pj_id :: string
  pj_title :: string
  pj_location :: string
  pj_area_hectares :: real
  pj_description :: string
  pj_status :: string
  pj_estimated_credits :: real
  pj_submitted_at :: timestamp
  pj_submitter_id :: string
  pj_verifier_id :: "string option"
  pj_verification_notes :: "string option"
  pj_verified_at :: "timestamp option"

record carbon_credit_row =
  cc_project_id :: string
  cc_owner_id :: string
  cc_credits_amount :: real
  cc_status :: string

record certificate_row =
  ct_project_id :: string
  ct_generated_by :: "string option"
  ct_certificate_url :: "string option"

text \<open>The columns of \<^verbatim>\<open>certificate_requests\<close>, as the migration creates them.\<close>

record certificate_request_row =
  rq_id :: string
  rq_project_id :: string
  rq_requester_id :: string
  rq_status :: string
  rq_requested_at :: "timestamp option"
  rq_processed_at :: "timestamp option"
  rq_processed_by :: "string option"
  rq_notes :: "string option"
  rq_created_at :: "timestamp option"
  rq_updated_at :: "timestamp option"

record db =
  projects :: "project_row list"
  profiles :: "profile_row list"
  carbon_credits :: "carbon_credit_row list"
  certificates :: "certificate_row list"
  certificate_requests :: "certificate_request_row list"

subsection \<open>What the queries return\<close>

record submitter_summary =
  ss_full_name :: string
  ss_organization :: "string option"

text \<open>An element of \<^verbatim>\<open>pendingProjects\<close>: every column of the row (\<^verbatim>\<open>select *\<close>)
  and the embedded submitter profile, \<^verbatim>\<open>null\<close> when the join finds none.\<close>

record pending_project =
  pp_row :: project_row
  pp_profiles :: "submitter_summary option"

record project_summary =
  ps_id :: string
  ps_title :: string
  ps_location :: string
  ps_area_hectares :: real
  ps_estimated_credits :: real
  ps_verified_at :: "timestamp option"

record requester_summary =
  rs_full_name :: string
  rs_organization :: "string option"
  rs_role :: string

record request_view =
  rv_row :: certificate_request_row
  rv_projects :: "project_summary option"
  rv_profiles :: "requester_summary option"

subsection \<open>The component's state\<close>

datatype error = Error (message: string)

record toast =
  title :: string
  description :: string
  variant :: "string option"

record stats =
  pendingReviews :: nat
  verifiedProjects :: nat
  rejectedProjects :: nat
  totalReviewed :: nat

text \<open>
  The \<^verbatim>\<open>useState\<close> cells of the component and \<^verbatim>\<open>profile\<close> of \<^verbatim>\<open>useAuth\<close>.
  \<open>session_uid\<close> is the user the Supabase client is signed in as (\<^verbatim>\<open>auth.uid()\<close> in the
  policies of the migration). \<open>toasts\<close> and \<open>console\<close> record, oldest first, the calls of
  \<^verbatim>\<open>toast\<close> and \<^verbatim>\<open>console.error\<close>: they are what the user is told.
\<close>

record component =
  profile :: "profile_row option"
  session_uid :: "string option"
  pendingProjects :: "pending_project list"
  selectedProject :: "pending_project option"
  verificationNotes :: string
  certificateRequests :: "request_view list"
  stats :: stats
  loading :: bool
  toasts :: "toast list"
  console :: "(string \<times> error) list"

datatype verify_status = Verified | Rejected

datatype request_status = Approved | Request_rejected

fun verify_status_str :: "verify_status \<Rightarrow> string" where
  "verify_status_str Verified = ''verified''"
| "verify_status_str Rejected = ''rejected''"

fun request_status_str :: "request_status \<Rightarrow> string" where
  "request_status_str Approved = ''approved''"
| "request_status_str Request_rejected = ''rejected''"

section \<open>The store\<close>

text \<open>
  A call of the Supabase client resolves to \<^verbatim>\<open>{ data, error }\<close>: it does not throw.
  Whether a call fails is decided outside the component (network, constraints of tables
  whose schema is not part of the repository), so each call takes its fault as an
  argument: \<open>None\<close> when the statement runs, \<open>Some e\<close> when it fails with \<open>e\<close>. A failed
  statement changes nothing and returns \<^verbatim>\<open>data = null\<close>.
\<close>

definition gateway_read :: "error option \<Rightarrow> 'a \<Rightarrow> 'a option" where
  "gateway_read fault rows = (case fault of None \<Rightarrow> Some rows | Some e \<Rightarrow> None)"

definition gateway_write :: "error option \<Rightarrow> (db \<Rightarrow> db) \<Rightarrow> db \<Rightarrow> db \<times> error option" where
  "gateway_write fault stmt d = (case fault of None \<Rightarrow> (stmt d, None) | Some e \<Rightarrow> (d, Some e))"

subsection \<open>Row-level security of \<^verbatim>\<open>certificate_requests\<close>\<close>

text \<open>The \<^verbatim>\<open>EXISTS\<close> subquery of both policies: the signed-in user has a profile whose
  role is verifier or admin.\<close>

definition is_verifier_or_admin :: "db \<Rightarrow> string option \<Rightarrow> bool" where
  "is_verifier_or_admin d uid =
     list_ex (\<lambda>pr. Some (pf_user_id pr) = uid \<and> pf_role pr \<in> set [''verifier'', ''admin'']) (profiles d)"

text \<open>Policy "Users can view their own certificate requests" (\<^verbatim>\<open>FOR SELECT USING\<close>).\<close>

definition request_visible :: "db \<Rightarrow> string option \<Rightarrow> certificate_request_row \<Rightarrow> bool" where
  "request_visible d uid r = (Some (rq_requester_id r) = uid \<or> is_verifier_or_admin d uid)"

text \<open>Policy "Verifiers can update certificate requests" (\<^verbatim>\<open>FOR UPDATE USING\<close>): a row
  the policy excludes is skipped by the update, without an error.\<close>

definition request_updatable :: "db \<Rightarrow> string option \<Rightarrow> certificate_request_row \<Rightarrow> bool" where
  "request_updatable d uid r = is_verifier_or_admin d uid"

text \<open>The policies of \<^verbatim>\<open>projects\<close>, \<^verbatim>\<open>carbon_credits\<close> and \<^verbatim>\<open>certificates\<close> are not among
  the sources: their statements reach every row, and a refused write is a fault.\<close>

subsection \<open>Reads\<close>

definition join_submitter :: "db \<Rightarrow> project_row \<Rightarrow> pending_project" where
  "join_submitter d p =
     \<lparr>pp_row = p,
      pp_profiles = map_option (\<lambda>pr. \<lparr>ss_full_name = pf_full_name pr, ss_organization = pf_organization pr\<rparr>)
                      (find (\<lambda>pr. pf_id pr = pj_submitter_id p) (profiles d))\<rparr>"

text \<open>\<^verbatim>\<open>from('projects').select(...).in('status', ['pending', 'under_review'])
  .order('submitted_at', { ascending: true })\<close>\<close>

definition select_pending_projects :: "db \<Rightarrow> pending_project list" where
  "select_pending_projects d =
     map (join_submitter d)
       (sort_key pj_submitted_at
          (filter (\<lambda>p. pj_status p \<in> set [''pending'', ''under_review'']) (projects d)))"

definition join_request :: "db \<Rightarrow> certificate_request_row \<Rightarrow> request_view" where
  "join_request d r =
     \<lparr>rv_row = r,
      rv_projects = map_option
                      (\<lambda>p. \<lparr>ps_id = pj_id p, ps_title = pj_title p, ps_location = pj_location p,
                            ps_area_hectares = pj_area_hectares p,
                            ps_estimated_credits = pj_estimated_credits p,
                            ps_verified_at = pj_verified_at p\<rparr>)
                      (find (\<lambda>p. pj_id p = rq_project_id r) (projects d)),
      rv_profiles = map_option
                      (\<lambda>pr. \<lparr>rs_full_name = pf_full_name pr, rs_organization = pf_organization pr,
                             rs_role = pf_role pr\<rparr>)
                      (find (\<lambda>pr. pf_id pr = rq_requester_id r) (profiles d))\<rparr>"

text \<open>Ascending order of a nullable column puts the nulls last.\<close>

definition nulls_last :: "timestamp option \<Rightarrow> bool \<times> timestamp" where
  "nulls_last t = (case t of None \<Rightarrow> (True, 0) | Some x \<Rightarrow> (False, x))"

text \<open>\<^verbatim>\<open>from('certificate_requests').select(...).eq('status', 'pending')
  .order('requested_at', { ascending: true })\<close>, on the rows the signed-in user may see.\<close>

definition select_pending_requests :: "db \<Rightarrow> string option \<Rightarrow> request_view list" where
  "select_pending_requests d uid =
     map (join_request d)
       (sort_key (\<lambda>r. nulls_last (rq_requested_at r))
          (filter (\<lambda>r. rq_status r = ''pending'')
             (filter (request_visible d uid) (certificate_requests d))))"

text \<open>\<^verbatim>\<open>from('projects').select('status').not('verifier_id', 'is', null)\<close>\<close>

definition select_reviewed_statuses :: "db \<Rightarrow> string list" where
  "select_reviewed_statuses d = map pj_status (filter (\<lambda>p. pj_verifier_id p \<noteq> None) (projects d))"

subsection \<open>Writes\<close>

text \<open>
  The body of an update is sent as JSON, which drops a property whose value is
  \<^verbatim>\<open>undefined\<close>: the column keeps its value. \<^verbatim>\<open>profile?.id\<close> is \<^verbatim>\<open>undefined\<close> when no
  profile is loaded, so \<open>verifier\<close> is an \<open>option\<close> and \<open>None\<close> leaves \<^verbatim>\<open>verifier_id\<close>
  as it is. \<^verbatim>\<open>verified_at\<close> is always sent, as a time or as \<^verbatim>\<open>null\<close>.
\<close>

definition update_project ::
  "string \<Rightarrow> string \<Rightarrow> string option \<Rightarrow> string \<Rightarrow> timestamp option \<Rightarrow> db \<Rightarrow> db" where
  "update_project projectId st verifier notes verified d =
     d\<lparr>projects :=
         map (\<lambda>r. if pj_id r = projectId
                  then r\<lparr>pj_status := st,
                         pj_verifier_id := (case verifier of None \<Rightarrow> pj_verifier_id r | Some v \<Rightarrow> Some v),
                         pj_verification_notes := Some notes,
                         pj_verified_at := verified\<rparr>
                  else r)
           (projects d)\<rparr>"

definition insert_carbon_credit :: "carbon_credit_row \<Rightarrow> db \<Rightarrow> db" where
  "insert_carbon_credit c d = d\<lparr>carbon_credits := carbon_credits d @ [c]\<rparr>"

definition insert_certificate :: "certificate_row \<Rightarrow> db \<Rightarrow> db" where
  "insert_certificate c d = d\<lparr>certificates := certificates d @ [c]\<rparr>"

text \<open>\<^verbatim>\<open>processed_by\<close> and \<^verbatim>\<open>notes\<close> may be \<^verbatim>\<open>undefined\<close> and are then not sent.\<close>

definition update_certificate_request ::
  "string option \<Rightarrow> string \<Rightarrow> string \<Rightarrow> timestamp \<Rightarrow> string option \<Rightarrow> string option \<Rightarrow> db \<Rightarrow> db" where
  "update_certificate_request uid requestId st processed processor notes d =
     d\<lparr>certificate_requests :=
         map (\<lambda>r. if rq_id r = requestId \<and> request_updatable d uid r
                  then r\<lparr>rq_status := st,
                         rq_processed_at := Some processed,
                         rq_processed_by := (case processor of None \<Rightarrow> rq_processed_by r | Some p \<Rightarrow> Some p),
                         rq_notes := (case notes of None \<Rightarrow> rq_notes r | Some n \<Rightarrow> Some n)\<rparr>
                  else r)
           (certificate_requests d)\<rparr>"

section \<open>The component\<close>

subsection \<open>\<^verbatim>\<open>fetchVerifierData\<close>\<close>

record fetch_env =
  pending_fault :: "error option"
  requests_fault :: "error option"
  stats_fault :: "error option"

text \<open>
  The three reads ignore \<^verbatim>\<open>error\<close> and take \<^verbatim>\<open>data\<close>, which is \<^verbatim>\<open>null\<close> after a failure;
  \<^verbatim>\<open>x?.length || 0\<close> and \<^verbatim>\<open>x || []\<close> turn \<^verbatim>\<open>null\<close> into \<open>0\<close> and the empty list. Nothing in
  the \<^verbatim>\<open>try\<close> block throws, so its \<^verbatim>\<open>catch\<close> is not reached; \<^verbatim>\<open>finally\<close> clears \<open>loading\<close>.
\<close>

definition fetchVerifierData :: "fetch_env \<Rightarrow> db \<Rightarrow> component \<Rightarrow> component" where
  "fetchVerifierData env d c =
     (let pendingData = gateway_read (pending_fault env) (select_pending_projects d);
          certificateRequestsData =
            gateway_read (requests_fault env) (select_pending_requests d (session_uid c));
          allProjects = gateway_read (stats_fault env) (select_reviewed_statuses d);
          verifiedCount =
            (case allProjects of None \<Rightarrow> 0 | Some ps \<Rightarrow> length (filter (\<lambda>s. s = ''verified'') ps));
          rejectedCount =
            (case allProjects of None \<Rightarrow> 0 | Some ps \<Rightarrow> length (filter (\<lambda>s. s = ''rejected'') ps))
      in c\<lparr>pendingProjects := (case pendingData of None \<Rightarrow> [] | Some ps \<Rightarrow> ps),
           certificateRequests := (case certificateRequestsData of None \<Rightarrow> [] | Some rs \<Rightarrow> rs),
           stats := \<lparr>pendingReviews = (case pendingData of None \<Rightarrow> 0 | Some ps \<Rightarrow> length ps),
                     verifiedProjects = verifiedCount,
                     rejectedProjects = rejectedCount,
                     totalReviewed = verifiedCount + rejectedCount\<rparr>,
           loading := False\<rparr>)"

subsection \<open>\<^verbatim>\<open>handleVerifyProject\<close>\<close>

text \<open>Decimal digits of a non-negative integer, as a template literal prints
  \<^verbatim>\<open>Date.now()\<close>.\<close>

fun decimal :: "nat \<Rightarrow> string" where
  "decimal n = (if n < 10 then [char_of (48 + n)] else decimal (n div 10) @ [char_of (48 + n mod 10)])"

declare decimal.simps [simp del]

text \<open>
  What the environment decides during one call: the two readings of the clock
  (\<^verbatim>\<open>new Date()\<close> for \<^verbatim>\<open>verified_at\<close>, \<^verbatim>\<open>Date.now()\<close> for the certificate's name), the
  fault of each of the three writes, and the faults of the reads of the refresh.
\<close>

record verify_env =
  verify_clock :: timestamp
  url_clock :: nat
  update_fault :: "error option"
  credit_fault :: "error option"
  certificate_fault :: "error option"
  verify_refresh :: fetch_env

text \<open>The \<^verbatim>\<open>catch\<close> block of both handlers shows a destructive toast.\<close>

definition error_toast :: "string \<Rightarrow> component \<Rightarrow> component" where
  "error_toast msg c =
     c\<lparr>toasts := toasts c @ [\<lparr>title = ''Error'', description = msg, variant = Some ''destructive''\<rparr>]\<rparr>"

text \<open>
  Lines 130 to 157: the branch \<^verbatim>\<open>if (status === 'verified')\<close>. The project is looked up
  in the list held in memory; when it is not there, nothing is written. The result is
  the store, the component and the error thrown, if any.
\<close>

definition issue_credit ::
  "verify_env \<Rightarrow> string \<Rightarrow> db \<Rightarrow> component \<Rightarrow> db \<times> component \<times> error option" where
  "issue_credit env projectId d c =
     (case find (\<lambda>p. pj_id (pp_row p) = projectId) (pendingProjects c) of
        None \<Rightarrow> (d, c, None)
      | Some project \<Rightarrow>
          (case gateway_write (credit_fault env)
                  (insert_carbon_credit
                     \<lparr>cc_project_id = projectId,
                      cc_owner_id = pj_submitter_id (pp_row project),
                      cc_credits_amount = pj_estimated_credits (pp_row project),
                      cc_status = ''active''\<rparr>) d of
             (d1, Some creditError) \<Rightarrow> (d1, c, Some creditError)
           | (d1, None) \<Rightarrow>
               (case gateway_write (certificate_fault env)
                       (insert_certificate
                          \<lparr>ct_project_id = projectId,
                           ct_generated_by = map_option pf_id (profile c),
                           ct_certificate_url =
                             Some (''auto_cert_'' @ projectId @ ''_'' @ decimal (url_clock env) @ ''.pdf'')\<rparr>) d1 of
                  (d2, Some certificateError) \<Rightarrow>
                    (d2, c\<lparr>console := console c @ [(''Error auto-generating certificate:'', certificateError)]\<rparr>, None)
                | (d2, None) \<Rightarrow> (d2, c, None))))"

definition handleVerifyProject ::
  "verify_env \<Rightarrow> string \<Rightarrow> verify_status \<Rightarrow> db \<Rightarrow> component \<Rightarrow> db \<times> component" where
  "handleVerifyProject env projectId status d c =
     (case gateway_write (update_fault env)
             (update_project projectId (verify_status_str status) (map_option pf_id (profile c))
                (verificationNotes c)
                (if status = Verified then Some (verify_clock env) else None)) d of
        (d1, Some updateError) \<Rightarrow> (d1, error_toast (message updateError) c)
      | (d1, None) \<Rightarrow>
          (case (if status = Verified then issue_credit env projectId d1 c else (d1, c, None)) of
             (d2, c2, Some creditError) \<Rightarrow> (d2, error_toast (message creditError) c2)
           | (d2, c2, None) \<Rightarrow>
               (let c3 = c2\<lparr>toasts := toasts c2 @
                              [\<lparr>title = ''Success'',
                                description = ''Project '' @ verify_status_str status @ '' successfully'' @
                                  (if status = Verified then '' and certificate auto-generated'' else ''''),
                                variant = None\<rparr>]\<rparr>;
                    c4 = fetchVerifierData (verify_refresh env) d2 c3
                in (d2, c4\<lparr>selectedProject := None, verificationNotes := ''''\<rparr>))))"

subsection \<open>\<^verbatim>\<open>handleCertificateRequest\<close>\<close>

record request_env =
  request_clock :: timestamp
  request_update_fault :: "error option"
  request_certificate_fault :: "error option"
  request_refresh :: fetch_env

text \<open>\<^verbatim>\<open>error.message || 'Failed to process certificate request'\<close>: an empty message is
  falsy.\<close>

definition request_error_message :: "error \<Rightarrow> string" where
  "request_error_message e =
     (if message e = '''' then ''Failed to process certificate request'' else message e)"

definition handleCertificateRequest ::
  "request_env \<Rightarrow> string \<Rightarrow> string \<Rightarrow> request_status \<Rightarrow> string option \<Rightarrow> db \<Rightarrow> component
     \<Rightarrow> db \<times> component" where
  "handleCertificateRequest env requestId projectId status notes d c =
     (case gateway_write (request_update_fault env)
             (update_certificate_request (session_uid c) requestId (request_status_str status)
                (request_clock env) (map_option pf_id (profile c)) notes) d of
        (d1, Some updateError) \<Rightarrow> (d1, error_toast (request_error_message updateError) c)
      | (d1, None) \<Rightarrow>
          (case (if status = Approved
                 then gateway_write (request_certificate_fault env)
                        (insert_certificate
                           \<lparr>ct_project_id = projectId,
                            ct_generated_by = map_option pf_id (profile c),
                            ct_certificate_url = None\<rparr>) d1
                 else (d1, None)) of
             (d2, Some certificateError) \<Rightarrow> (d2, error_toast (request_error_message certificateError) c)
           | (d2, None) \<Rightarrow>
               (let c3 = c\<lparr>toasts := toasts c @
                             [\<lparr>title = ''Certificate Request Processed'',
                               description = ''Certificate request has been '' @ request_status_str status,
                               variant = None\<rparr>]\<rparr>
                in (d2, fetchVerifierData (request_refresh env) d2 c3))))"

section \<open>The claim about the pending counter, in the specification's words\<close>

text \<open>
  The specification counts the pending reviews inside the projects that have a
  verifier: the rows with a non-null \<^verbatim>\<open>verifier_id\<close> whose status is pending or
  under review. This definition follows those words, to be compared with the counter
  \<open>pendingReviews\<close> that \<open>fetchVerifierData\<close> stores.
\<close>

definition spec_pendingReviews :: "db \<Rightarrow> nat" where
  "spec_pendingReviews d =
     length (filter (\<lambda>p. pj_status p \<in> set [''pending'', ''under_review''])
               (filter (\<lambda>p. pj_verifier_id p \<noteq> None) (projects d)))"

section \<open>A small store\<close>

text \<open>One submitter, one verifier, four projects (one in each status) and one pending
  certificate request; the verifier's dashboard before and after its first load.\<close>

definition submitter_U1 :: profile_row where
  "submitter_U1 = \<lparr>pf_id = ''U1'', pf_user_id = ''auth-U1'', pf_full_name = ''Asha'',
                    pf_organization = None, pf_role = ''submitter''\<rparr>"

definition verifier_V1 :: profile_row where
  "verifier_V1 = \<lparr>pf_id = ''V1'', pf_user_id = ''auth-V1'', pf_full_name = ''Ravi'',
                   pf_organization = Some ''Registry'', pf_role = ''verifier''\<rparr>"

definition project_P1 :: project_row where
  "project_P1 = \<lparr>pj_id = ''P1'', pj_title = ''Mangrove belt'', pj_location = ''Sundarbans'',
                  pj_area_hectares = 12, pj_description = ''Replanting'', pj_status = ''pending'',
                  pj_estimated_credits = 500, pj_submitted_at = 200, pj_submitter_id = ''U1'',
                  pj_verifier_id = None, pj_verification_notes = None, pj_verified_at = None\<rparr>"

definition project_P2 :: project_row where
  "project_P2 = \<lparr>pj_id = ''P2'', pj_title = ''Seagrass meadow'', pj_location = ''Palk Bay'',
                  pj_area_hectares = 7, pj_description = ''Restoration'', pj_status = ''under_review'',
                  pj_estimated_credits = 120, pj_submitted_at = 100, pj_submitter_id = ''U1'',
                  pj_verifier_id = None, pj_verification_notes = None, pj_verified_at = None\<rparr>"

definition project_P3 :: project_row where
  "project_P3 = \<lparr>pj_id = ''P3'', pj_title = ''Salt marsh'', pj_location = ''Kutch'',
                  pj_area_hectares = 30, pj_description = ''Protection'', pj_status = ''verified'',
                  pj_estimated_credits = 900, pj_submitted_at = 50, pj_submitter_id = ''U1'',
                  pj_verifier_id = Some ''V1'', pj_verification_notes = Some ''ok'',
                  pj_verified_at = Some 150\<rparr>"

definition project_P4 :: project_row where
  "project_P4 = \<lparr>pj_id = ''P4'', pj_title = ''Lagoon'', pj_location = ''Chilika'',
                  pj_area_hectares = 3, pj_description = ''Dredging'', pj_status = ''rejected'',
                  pj_estimated_credits = 40, pj_submitted_at = 60, pj_submitter_id = ''U1'',
                  pj_verifier_id = Some ''V1'', pj_verification_notes = Some ''no'',
                  pj_verified_at = None\<rparr>"

definition request_R1 :: certificate_request_row where
  "request_R1 = \<lparr>rq_id = ''R1'', rq_project_id = ''P3'', rq_requester_id = ''U1'',
                  rq_status = ''pending'', rq_requested_at = Some 300, rq_processed_at = None,
                  rq_processed_by = None, rq_notes = None, rq_created_at = Some 300,
                  rq_updated_at = Some 300\<rparr>"

definition store0 :: db where
  "store0 = \<lparr>projects = [project_P1, project_P2, project_P3, project_P4],
              profiles = [submitter_U1, verifier_V1],
              carbon_credits = [], certificates = [],
              certificate_requests = [request_R1]\<rparr>"

definition no_faults :: fetch_env where
  "no_faults = \<lparr>pending_fault = None, requests_fault = None, stats_fault = None\<rparr>"

definition dashboard0 :: component where
  "dashboard0 = \<lparr>profile = Some verifier_V1, session_uid = Some ''auth-V1'',
                  pendingProjects = [], selectedProject = None, verificationNotes = ''site visited'',
                  certificateRequests = [],
                  stats = \<lparr>pendingReviews = 0, verifiedProjects = 0, rejectedProjects = 0,
                            totalReviewed = 0\<rparr>,
                  loading = True, toasts = [], console = []\<rparr>"

definition dashboard1 :: component where
  "dashboard1 = fetchVerifierData no_faults store0 dashboard0"

definition verify_ok :: verify_env where
  "verify_ok = \<lparr>verify_clock = 1000, url_clock = 1001, update_fault = None, credit_fault = None,
                 certificate_fault = None, verify_refresh = no_faults\<rparr>"

definition request_ok :: request_env where
  "request_ok = \<lparr>request_clock = 2000, request_update_fault = None,
                  request_certificate_fault = None, request_refresh = no_faults\<rparr>"



section \<open>Auxiliary facts\<close>

subsection \<open>What \<^verbatim>\<open>fetchVerifierData\<close> stores and keeps\<close>

lemma fetch_pendingProjects:
  "pending_fault env = None \<Longrightarrow> pendingProjects (fetchVerifierData env d c) = select_pending_projects d"
  by (simp add: fetchVerifierData_def gateway_read_def Let_def)

lemma fetch_keeps:
  "profile (fetchVerifierData env d c) = profile c"
  "session_uid (fetchVerifierData env d c) = session_uid c"
  "toasts (fetchVerifierData env d c) = toasts c"
  "console (fetchVerifierData env d c) = console c"
  "verificationNotes (fetchVerifierData env d c) = verificationNotes c"
  "selectedProject (fetchVerifierData env d c) = selectedProject c"
  by (simp_all add: fetchVerifierData_def Let_def)

lemma select_pending_store0:
  "select_pending_projects store0 = [join_submitter store0 project_P2, join_submitter store0 project_P1]"
  by (simp add: select_pending_projects_def store0_def project_P1_def project_P2_def project_P3_def project_P4_def)

lemma pendingProjects_dashboard1:
  "pendingProjects dashboard1 = [join_submitter store0 project_P2, join_submitter store0 project_P1]"
  by (simp add: dashboard1_def fetch_pendingProjects no_faults_def select_pending_store0)

subsection \<open>Lookups and updates by a unique key\<close>

lemma find_unique_row:
  assumes "x \<in> set ys" and "\<forall>y\<in>set ys. f y = f x \<longrightarrow> y = x" and "\<And>y. g (h y) = y"
  shows "find (\<lambda>q. f (g q) = f x) (map h ys) = Some (h x)"
  using assms by (induction ys) auto

lemma find_pending_project:
  assumes "distinct (map pj_id (projects d))" and "p \<in> set (projects d)"
    and "pj_status p = ''pending'' \<or> pj_status p = ''under_review''"
  shows "find (\<lambda>q. pj_id (pp_row q) = pj_id p) (select_pending_projects d) = Some (join_submitter d p)"
proof -
  let ?ys = "sort_key pj_submitted_at
          (filter (\<lambda>p. pj_status p \<in> set [''pending'', ''under_review'']) (projects d))"
  have inj: "inj_on pj_id (set (projects d))"
    using assms(1) by (simp add: distinct_map)
  have mem: "p \<in> set ?ys" using assms(2,3) by auto
  have uniq: "\<forall>y\<in>set ?ys. pj_id y = pj_id p \<longrightarrow> y = p"
    using inj assms(2) by (auto dest: inj_onD)
  have "find (\<lambda>q. pj_id (pp_row q) = pj_id p) (map (join_submitter d) ?ys) = Some (join_submitter d p)"
    by (rule find_unique_row [OF mem uniq]) (simp add: join_submitter_def)
  then show ?thesis by (simp add: select_pending_projects_def)
qed

lemma map_replace_unique:
  assumes "distinct (map f xs)" and "x \<in> set xs"
  shows "map (\<lambda>r. if f r = f x then u r else r) xs = map (\<lambda>r. if r = x then u x else r) xs"
proof -
  have "inj_on f (set xs)" using assms(1) by (simp add: distinct_map)
  then have "\<forall>r\<in>set xs. (f r = f x) = (r = x)" using assms(2) by (auto dest: inj_onD)
  then show ?thesis by (intro map_cong) auto
qed

subsection \<open>What a call of \<^verbatim>\<open>handleVerifyProject\<close> leaves\<close>

lemma handleVerifyProject_update_failed:
  "update_fault env = Some e \<Longrightarrow>
   handleVerifyProject env projectId status d c = (d, error_toast (message e) c)"
  by (simp add: handleVerifyProject_def gateway_write_def)

lemma handleVerifyProject_rejected:
  "update_fault env = None \<Longrightarrow>
   fst (handleVerifyProject env projectId Rejected d c) =
     update_project projectId ''rejected'' (map_option pf_id (profile c)) (verificationNotes c) None d"
  by (simp add: handleVerifyProject_def gateway_write_def Let_def)

lemma issue_credit_unlisted:
  "find (\<lambda>p. pj_id (pp_row p) = projectId) (pendingProjects c) = None \<Longrightarrow>
   issue_credit env projectId d c = (d, c, None)"
  by (simp add: issue_credit_def)

lemma issue_credit_listed:
  "find (\<lambda>p. pj_id (pp_row p) = projectId) (pendingProjects c) = Some project \<Longrightarrow>
   issue_credit env projectId d c =
     (case credit_fault env of
        Some creditError \<Rightarrow> (d, c, Some creditError)
      | None \<Rightarrow>
         (let d1 = insert_carbon_credit \<lparr>cc_project_id = projectId,
                      cc_owner_id = pj_submitter_id (pp_row project),
                      cc_credits_amount = pj_estimated_credits (pp_row project),
                      cc_status = ''active''\<rparr> d
          in case certificate_fault env of
               Some certificateError \<Rightarrow>
                 (d1, c\<lparr>console := console c @ [(''Error auto-generating certificate:'', certificateError)]\<rparr>, None)
             | None \<Rightarrow>
                 (insert_certificate \<lparr>ct_project_id = projectId,
                           ct_generated_by = map_option pf_id (profile c),
                           ct_certificate_url =
                             Some (''auto_cert_'' @ projectId @ ''_'' @ decimal (url_clock env) @ ''.pdf'')\<rparr> d1, c, None)))"
  by (simp add: issue_credit_def gateway_write_def Let_def split: option.splits)

lemma handleVerifyProject_verified_db:
  assumes "update_fault env = None"
  shows "fst (handleVerifyProject env projectId Verified d c) =
           fst (issue_credit env projectId
                  (update_project projectId ''verified'' (map_option pf_id (profile c))
                     (verificationNotes c) (Some (verify_clock env)) d) c)"
  using assms by (simp add: handleVerifyProject_def gateway_write_def Let_def split: prod.splits option.splits)

lemma handleVerifyProject_verified_toasts:
  assumes "update_fault env = None"
  shows "toasts (snd (handleVerifyProject env projectId Verified d c)) =
           (case issue_credit env projectId
                  (update_project projectId ''verified'' (map_option pf_id (profile c))
                     (verificationNotes c) (Some (verify_clock env)) d) c of
              (d2, c2, Some creditError) \<Rightarrow>
                toasts c2 @ [\<lparr>title = ''Error'', description = message creditError, variant = Some ''destructive''\<rparr>]
            | (d2, c2, None) \<Rightarrow>
                toasts c2 @ [\<lparr>title = ''Success'',
                              description = ''Project verified successfully and certificate auto-generated'',
                              variant = None\<rparr>])"
  using assms
  by (simp add: handleVerifyProject_def gateway_write_def Let_def error_toast_def fetch_keeps
           split: prod.splits option.splits)

lemma handleVerifyProject_verified_console:
  assumes "update_fault env = None"
  shows "console (snd (handleVerifyProject env projectId Verified d c)) =
           console (fst (snd (issue_credit env projectId
                  (update_project projectId ''verified'' (map_option pf_id (profile c))
                     (verificationNotes c) (Some (verify_clock env)) d) c)))"
  using assms
  by (simp add: handleVerifyProject_def gateway_write_def Let_def error_toast_def fetch_keeps
           split: prod.splits option.splits)

lemma update_project_tables:
  "carbon_credits (update_project i s v n t d) = carbon_credits d"
  "certificates (update_project i s v n t d) = certificates d"
  "certificate_requests (update_project i s v n t d) = certificate_requests d"
  "profiles (update_project i s v n t d) = profiles d"
  by (simp_all add: update_project_def)

lemma handleVerifyProject_verified_listed:
  assumes "update_fault env = None"
    and "find (\<lambda>q. pj_id (pp_row q) = projectId) (pendingProjects c) = Some project"
    and "credit_fault env = None"
  shows "carbon_credits (fst (handleVerifyProject env projectId Verified d c)) =
           carbon_credits d @ [\<lparr>cc_project_id = projectId,
                                  cc_owner_id = pj_submitter_id (pp_row project),
                                  cc_credits_amount = pj_estimated_credits (pp_row project),
                                  cc_status = ''active''\<rparr>]"
    and "projects (fst (handleVerifyProject env projectId Verified d c)) =
           projects (update_project projectId ''verified'' (map_option pf_id (profile c))
                       (verificationNotes c) (Some (verify_clock env)) d)"
  using assms
  by (simp_all add: handleVerifyProject_verified_db issue_credit_listed Let_def
        insert_carbon_credit_def insert_certificate_def update_project_tables split: option.splits)

lemma find_absent_key:
  assumes "k \<notin> set (map f xs)"
  shows "find (\<lambda>q. f q = k) xs = None"
  using assms by (induction xs) auto

lemma map_if_all:
  assumes "\<And>x. P (u x)" and "\<And>x. \<not> c x \<Longrightarrow> P x"
  shows "\<forall>r\<in>set (map (\<lambda>x. if c x then u x else x) xs). P r"
  using assms by (induction xs) auto

lemma projects_update_project:
  "projects (update_project projectId st v n t d) =
     map (\<lambda>r. if pj_id r = projectId
              then r\<lparr>pj_status := st,
                     pj_verifier_id := (case v of None \<Rightarrow> pj_verifier_id r | Some x \<Rightarrow> Some x),
                     pj_verification_notes := Some n,
                     pj_verified_at := t\<rparr>
              else r) (projects d)"
  by (simp add: update_project_def)

lemma updated_rows_status:
  "\<forall>r \<in> set (projects (update_project projectId st v n t d)).
             pj_id r = projectId \<longrightarrow> pj_status r = st"
  unfolding projects_update_project by (rule map_if_all) simp_all

lemma rows_select_pending:
  "map pp_row (select_pending_projects d) =
     sort_key pj_submitted_at
       (filter (\<lambda>p. pj_status p = ''pending'' \<or> pj_status p = ''under_review'') (projects d))"
  by (simp add: select_pending_projects_def o_def join_submitter_def)

lemma issue_credit_projects:
  "projects (fst (issue_credit env projectId d c)) = projects d"
  by (simp add: issue_credit_def gateway_write_def insert_carbon_credit_def insert_certificate_def
        split: option.splits)

lemma issue_credit_no_error:
  "credit_fault env = None \<Longrightarrow> snd (snd (issue_credit env projectId d c)) = None"
  by (simp add: issue_credit_def gateway_write_def split: option.splits)

lemma handleVerifyProject_verified_refreshed:
  assumes "update_fault env = None" and "credit_fault env = None"
    and "pending_fault (verify_refresh env) = None"
  shows "pendingProjects (snd (handleVerifyProject env projectId Verified d c)) =
           select_pending_projects (fst (handleVerifyProject env projectId Verified d c))"
proof -
  obtain d2 c2 where ic: "issue_credit env projectId
      (update_project projectId ''verified'' (map_option pf_id (profile c)) (verificationNotes c)
         (Some (verify_clock env)) d) c = (d2, c2, None)"
    using issue_credit_no_error [OF assms(2)] by (metis prod.collapse)
  show ?thesis
    using assms(1,3) ic
    by (simp add: handleVerifyProject_def gateway_write_def Let_def fetch_pendingProjects)
qed

lemma verified_rows_not_pending:
  assumes "\<forall>r \<in> set (projects d). pj_id r = projectId \<longrightarrow> pj_status r = ''verified''"
  shows "projectId \<notin> set (map (\<lambda>q. pj_id (pp_row q)) (select_pending_projects d))"
proof
  assume "projectId \<in> set (map (\<lambda>q. pj_id (pp_row q)) (select_pending_projects d))"
  then obtain q where q: "q \<in> set (select_pending_projects d)" "pj_id (pp_row q) = projectId"
    by auto
  from q(1) have "pp_row q \<in> set (map pp_row (select_pending_projects d))" by simp
  then have row: "pp_row q \<in> set (projects d)"
    and st: "pj_status (pp_row q) = ''pending'' \<or> pj_status (pp_row q) = ''under_review''"
    unfolding rows_select_pending by simp_all
  from assms row q(2) have "pj_status (pp_row q) = ''verified''" by blast
  with st show False by simp
qed

subsection \<open>The small store, evaluated\<close>

lemma store0_tables:
  "projects store0 = [project_P1, project_P2, project_P3, project_P4]"
  "carbon_credits store0 = []" "certificates store0 = []"
  "certificate_requests store0 = [request_R1]"
  "profiles store0 = [submitter_U1, verifier_V1]"
  by (simp_all add: store0_def)

lemma projects_differ:
  "project_P2 \<noteq> project_P1" "project_P3 \<noteq> project_P1" "project_P4 \<noteq> project_P1"
  "project_P1 \<noteq> project_P2" "project_P3 \<noteq> project_P2" "project_P4 \<noteq> project_P2"
  by (simp_all add: project_P1_def project_P2_def project_P3_def project_P4_def)

lemma dashboard1_cells:
  "profile dashboard1 = Some verifier_V1" "session_uid dashboard1 = Some ''auth-V1''"
  "verificationNotes dashboard1 = ''site visited''" "toasts dashboard1 = []" "console dashboard1 = []"
  by (simp_all add: dashboard1_def fetch_keeps dashboard0_def)

lemma verify_ok_fields:
  "verify_clock verify_ok = 1000" "url_clock verify_ok = 1001" "update_fault verify_ok = None"
  "credit_fault verify_ok = None" "certificate_fault verify_ok = None"
  by (simp_all add: verify_ok_def)

lemma find_P1_dashboard1:
  "find (\<lambda>q. pj_id (pp_row q) = ''P1'') (pendingProjects dashboard1) = Some (join_submitter store0 project_P1)"
  by (simp add: pendingProjects_dashboard1 join_submitter_def project_P1_def project_P2_def)

lemma pp_row_join: "pp_row (join_submitter d p) = p"
  by (simp add: join_submitter_def)

lemma project_P1_fields:
  "pj_id project_P1 = ''P1''" "pj_submitter_id project_P1 = ''U1''"
  "pj_estimated_credits project_P1 = 500" "pj_status project_P1 = ''pending''"
  by (simp_all add: project_P1_def)

lemma distinct_ids_store0: "distinct (map pj_id (projects store0))"
  by (simp add: store0_def project_P1_def project_P2_def project_P3_def project_P4_def)



section \<open>Deciding a project\<close>




text \<open>
  C6. Let \<open>p\<close> be a project of the store (pending, under review or in any other status:
  the handler does not look at it) and let the verifier \<open>v\<close> be signed in. When the
  update succeeds, \<open>handleVerifyProject\<close> with status rejected replaces \<open>p\<close> by \<open>p\<close> with
  status rejected, \<^verbatim>\<open>verifier_id\<close> the id of \<open>v\<close>, the notes typed and \<^verbatim>\<open>verified_at\<close>
  null; it creates no carbon credit and no certificate.
\<close>

theorem decideProject_rejected:
  assumes "distinct (map pj_id (projects d))"
    and "p \<in> set (projects d)"
    and "profile c = Some v"
    and "update_fault env = None"
  shows "projects (fst (handleVerifyProject env (pj_id p) Rejected d c)) =
           map (\<lambda>r. if r = p
                    then p\<lparr>pj_status := ''rejected'', pj_verifier_id := Some (pf_id v),
                           pj_verification_notes := Some (verificationNotes c),
                           pj_verified_at := None\<rparr>
                    else r) (projects d)
       \<and> carbon_credits (fst (handleVerifyProject env (pj_id p) Rejected d c)) = carbon_credits d
       \<and> certificates (fst (handleVerifyProject env (pj_id p) Rejected d c)) = certificates d"
proof -
  have "projects (fst (handleVerifyProject env (pj_id p) Rejected d c)) =
          map (\<lambda>r. if pj_id r = pj_id p
                   then r\<lparr>pj_status := ''rejected'', pj_verifier_id := Some (pf_id v),
                          pj_verification_notes := Some (verificationNotes c),
                          pj_verified_at := None\<rparr>
                   else r) (projects d)"
    using assms(3,4) by (simp add: handleVerifyProject_rejected update_project_def)
  then have "projects (fst (handleVerifyProject env (pj_id p) Rejected d c)) =
           map (\<lambda>r. if r = p
                    then p\<lparr>pj_status := ''rejected'', pj_verifier_id := Some (pf_id v),
                           pj_verification_notes := Some (verificationNotes c),
                           pj_verified_at := None\<rparr>
                    else r) (projects d)"
    using map_replace_unique [OF assms(1,2)] by simp
  then show ?thesis
    using assms(4) by (simp add: handleVerifyProject_rejected update_project_tables)
qed

theorem decideProject_rejected_witness:
  "distinct (map pj_id (projects store0)) \<and> project_P2 \<in> set (projects store0)
   \<and> profile dashboard1 = Some verifier_V1 \<and> update_fault verify_ok = None
   \<and> projects (fst (handleVerifyProject verify_ok ''P2'' Rejected store0 dashboard1)) =
        [project_P1,
         project_P2\<lparr>pj_status := ''rejected'', pj_verifier_id := Some ''V1'',
                      pj_verification_notes := Some ''site visited'', pj_verified_at := None\<rparr>,
         project_P3, project_P4]
   \<and> carbon_credits (fst (handleVerifyProject verify_ok ''P2'' Rejected store0 dashboard1)) = []
   \<and> certificates (fst (handleVerifyProject verify_ok ''P2'' Rejected store0 dashboard1)) = []"
proof -
  have h2: "project_P2 \<in> set (projects store0)" by (simp add: store0_def)
  have id2: "pj_id project_P2 = ''P2''" by (simp add: project_P2_def)
  have v: "pf_id verifier_V1 = ''V1''" by (simp add: verifier_V1_def)
  from decideProject_rejected [OF distinct_ids_store0 h2 dashboard1_cells(1) verify_ok_fields(3)]
  have "projects (fst (handleVerifyProject verify_ok ''P2'' Rejected store0 dashboard1)) =
        [project_P1,
         project_P2\<lparr>pj_status := ''rejected'', pj_verifier_id := Some ''V1'',
                      pj_verification_notes := Some ''site visited'', pj_verified_at := None\<rparr>,
         project_P3, project_P4]
   \<and> carbon_credits (fst (handleVerifyProject verify_ok ''P2'' Rejected store0 dashboard1)) = []
   \<and> certificates (fst (handleVerifyProject verify_ok ''P2'' Rejected store0 dashboard1)) = []"
    by (simp add: id2 v store0_tables projects_differ dashboard1_cells)
  with distinct_ids_store0 h2 dashboard1_cells(1) verify_ok_fields(3) show ?thesis by blast
qed

text \<open>
  C10. When the id passed with status verified is not the id of any project of the list
  in memory and the update succeeds, the only write is the update: every row with this id
  has status verified afterwards, no carbon credit and no certificate is created, nothing
  is logged, and the user is shown the toast of success.
\<close>

theorem verified_project_not_listed:
  assumes "update_fault env = None"
    and "projectId \<notin> set (map (\<lambda>q. pj_id (pp_row q)) (pendingProjects c))"
  shows "fst (handleVerifyProject env projectId Verified d c) =
           update_project projectId ''verified'' (map_option pf_id (profile c)) (verificationNotes c)
             (Some (verify_clock env)) d
       \<and> (\<forall>r \<in> set (projects (fst (handleVerifyProject env projectId Verified d c))).
             pj_id r = projectId \<longrightarrow> pj_status r = ''verified'')
       \<and> carbon_credits (fst (handleVerifyProject env projectId Verified d c)) = carbon_credits d
       \<and> certificates (fst (handleVerifyProject env projectId Verified d c)) = certificates d
       \<and> toasts (snd (handleVerifyProject env projectId Verified d c)) =
           toasts c @ [\<lparr>title = ''Success'',
                         description = ''Project verified successfully and certificate auto-generated'',
                         variant = None\<rparr>]
       \<and> console (snd (handleVerifyProject env projectId Verified d c)) = console c"
proof -
  have nf: "find (\<lambda>q. pj_id (pp_row q) = projectId) (pendingProjects c) = None"
    using assms(2) by (rule find_absent_key)
  have db: "fst (handleVerifyProject env projectId Verified d c) =
           update_project projectId ''verified'' (map_option pf_id (profile c)) (verificationNotes c)
             (Some (verify_clock env)) d"
    using assms(1) by (simp add: handleVerifyProject_verified_db issue_credit_unlisted [OF nf])
  have st: "\<forall>r \<in> set (projects (update_project projectId ''verified'' (map_option pf_id (profile c))
              (verificationNotes c) (Some (verify_clock env)) d)).
             pj_id r = projectId \<longrightarrow> pj_status r = ''verified''"
    by (rule updated_rows_status)
  have ts: "toasts (snd (handleVerifyProject env projectId Verified d c)) =
           toasts c @ [\<lparr>title = ''Success'',
                         description = ''Project verified successfully and certificate auto-generated'',
                         variant = None\<rparr>]"
    using assms(1) by (simp add: handleVerifyProject_verified_toasts issue_credit_unlisted [OF nf])
  have cs: "console (snd (handleVerifyProject env projectId Verified d c)) = console c"
    using assms(1) by (simp add: handleVerifyProject_verified_console issue_credit_unlisted [OF nf])
  show ?thesis
    using st by (simp add: db ts cs update_project_tables)
qed

theorem verified_project_not_listed_witness:
  "update_fault verify_ok = None
   \<and> ''P1'' \<notin> set (map (\<lambda>q. pj_id (pp_row q)) (pendingProjects dashboard0))
   \<and> projects (fst (handleVerifyProject verify_ok ''P1'' Verified store0 dashboard0)) =
        [project_P1\<lparr>pj_status := ''verified'', pj_verifier_id := Some ''V1'',
                      pj_verification_notes := Some ''site visited'', pj_verified_at := Some 1000\<rparr>,
         project_P2, project_P3, project_P4]
   \<and> carbon_credits (fst (handleVerifyProject verify_ok ''P1'' Verified store0 dashboard0)) = []
   \<and> certificates (fst (handleVerifyProject verify_ok ''P1'' Verified store0 dashboard0)) = []
   \<and> toasts (snd (handleVerifyProject verify_ok ''P1'' Verified store0 dashboard0)) =
        [\<lparr>title = ''Success'',
          description = ''Project verified successfully and certificate auto-generated'',
          variant = None\<rparr>]"
proof -
  have h2: "''P1'' \<notin> set (map (\<lambda>q. pj_id (pp_row q)) (pendingProjects dashboard0))"
    by (simp add: dashboard0_def)
  have ids: "pj_id project_P1 = ''P1''" "pj_id project_P2 = ''P2''" "pj_id project_P3 = ''P3''"
    "pj_id project_P4 = ''P4''"
    by (simp_all add: project_P1_def project_P2_def project_P3_def project_P4_def)
  have cells: "profile dashboard0 = Some verifier_V1" "verificationNotes dashboard0 = ''site visited''"
    "toasts dashboard0 = []"
    by (simp_all add: dashboard0_def)
  have v: "pf_id verifier_V1 = ''V1''" by (simp add: verifier_V1_def)
  from verified_project_not_listed [OF verify_ok_fields(3) h2, of store0]
  have "projects (fst (handleVerifyProject verify_ok ''P1'' Verified store0 dashboard0)) =
        [project_P1\<lparr>pj_status := ''verified'', pj_verifier_id := Some ''V1'',
                      pj_verification_notes := Some ''site visited'', pj_verified_at := Some 1000\<rparr>,
         project_P2, project_P3, project_P4]
   \<and> carbon_credits (fst (handleVerifyProject verify_ok ''P1'' Verified store0 dashboard0)) = []
   \<and> certificates (fst (handleVerifyProject verify_ok ''P1'' Verified store0 dashboard0)) = []
   \<and> toasts (snd (handleVerifyProject verify_ok ''P1'' Verified store0 dashboard0)) =
        [\<lparr>title = ''Success'',
          description = ''Project verified successfully and certificate auto-generated'',
          variant = None\<rparr>]"
    by (simp add: update_project_def store0_tables ids cells v verify_ok_fields)
  with verify_ok_fields(3) h2 show ?thesis by blast
qed

text \<open>
  C5. When the update of the project fails, \<open>handleVerifyProject\<close> stops there, for
  either decision: the store is the one it was given (no credit, no certificate, no
  change to any table) and the only effect on the component is the toast of the error.
\<close>

theorem update_failure_aborts:
  assumes "update_fault env = Some e"
  shows "handleVerifyProject env projectId status d c =
           (d, c\<lparr>toasts := toasts c @
                   [\<lparr>title = ''Error'', description = message e, variant = Some ''destructive''\<rparr>]\<rparr>)"
  using assms by (simp add: handleVerifyProject_def gateway_write_def error_toast_def)

theorem update_failure_aborts_witness:
  "update_fault (verify_ok\<lparr>update_fault := Some (Error ''connection lost'')\<rparr>) = Some (Error ''connection lost'')
   \<and> handleVerifyProject (verify_ok\<lparr>update_fault := Some (Error ''connection lost'')\<rparr>) ''P1'' Verified
         store0 dashboard1 =
       (store0, dashboard1\<lparr>toasts := [\<lparr>title = ''Error'', description = ''connection lost'',
                                         variant = Some ''destructive''\<rparr>]\<rparr>)"
proof -
  have t: "toasts dashboard1 = []"
    by (simp add: dashboard1_def fetch_keeps dashboard0_def)
  show ?thesis
    using update_failure_aborts [of "verify_ok\<lparr>update_fault := Some (Error ''connection lost'')\<rparr>"
        "Error ''connection lost''" "''P1''" Verified store0 dashboard1]
    by (simp add: t)
qed


text \<open>
  C3. Let the update succeed and the project be in the list in memory. If the credit is
  inserted and the insert of the certificate then fails with \<open>e\<close>, the failure is written
  to the console and nothing else: no certificate exists, the credit stays, and the user
  is shown the toast of success. If the insert of the credit fails with \<open>e\<close>, the user is
  shown the toast of the error with the message of \<open>e\<close>; the project stays updated and
  neither a credit nor a certificate exists.
\<close>

theorem certificate_failure_best_effort:
  assumes "update_fault env = None"
    and "find (\<lambda>q. pj_id (pp_row q) = projectId) (pendingProjects c) = Some project"
  shows "(credit_fault env = None \<and> certificate_fault env = Some e \<longrightarrow>
            toasts (snd (handleVerifyProject env projectId Verified d c)) =
              toasts c @ [\<lparr>title = ''Success'',
                            description = ''Project verified successfully and certificate auto-generated'',
                            variant = None\<rparr>]
          \<and> console (snd (handleVerifyProject env projectId Verified d c)) =
              console c @ [(''Error auto-generating certificate:'', e)]
          \<and> certificates (fst (handleVerifyProject env projectId Verified d c)) = certificates d
          \<and> carbon_credits (fst (handleVerifyProject env projectId Verified d c)) =
              carbon_credits d @ [\<lparr>cc_project_id = projectId,
                                     cc_owner_id = pj_submitter_id (pp_row project),
                                     cc_credits_amount = pj_estimated_credits (pp_row project),
                                     cc_status = ''active''\<rparr>])
       \<and> (credit_fault env = Some e \<longrightarrow>
            toasts (snd (handleVerifyProject env projectId Verified d c)) =
              toasts c @ [\<lparr>title = ''Error'', description = message e,
                            variant = Some ''destructive''\<rparr>]
          \<and> carbon_credits (fst (handleVerifyProject env projectId Verified d c)) = carbon_credits d
          \<and> certificates (fst (handleVerifyProject env projectId Verified d c)) = certificates d
          \<and> projects (fst (handleVerifyProject env projectId Verified d c)) =
              projects (update_project projectId ''verified'' (map_option pf_id (profile c))
                          (verificationNotes c) (Some (verify_clock env)) d))"
  using assms
  by (simp add: handleVerifyProject_verified_db handleVerifyProject_verified_toasts
        handleVerifyProject_verified_console issue_credit_listed Let_def
        insert_carbon_credit_def update_project_tables)

theorem certificate_failure_best_effort_witness:
  "toasts (snd (handleVerifyProject (verify_ok\<lparr>certificate_fault := Some (Error ''denied'')\<rparr>) ''P1''
                  Verified store0 dashboard1)) =
     [\<lparr>title = ''Success'',
       description = ''Project verified successfully and certificate auto-generated'',
       variant = None\<rparr>]
   \<and> console (snd (handleVerifyProject (verify_ok\<lparr>certificate_fault := Some (Error ''denied'')\<rparr>) ''P1''
                  Verified store0 dashboard1)) =
     [(''Error auto-generating certificate:'', Error ''denied'')]
   \<and> certificates (fst (handleVerifyProject (verify_ok\<lparr>certificate_fault := Some (Error ''denied'')\<rparr>)
                  ''P1'' Verified store0 dashboard1)) = []
   \<and> carbon_credits (fst (handleVerifyProject (verify_ok\<lparr>certificate_fault := Some (Error ''denied'')\<rparr>)
                  ''P1'' Verified store0 dashboard1)) =
     [\<lparr>cc_project_id = ''P1'', cc_owner_id = ''U1'', cc_credits_amount = 500, cc_status = ''active''\<rparr>]
   \<and> toasts (snd (handleVerifyProject (verify_ok\<lparr>credit_fault := Some (Error ''quota'')\<rparr>) ''P1''
                  Verified store0 dashboard1)) =
     [\<lparr>title = ''Error'', description = ''quota'', variant = Some ''destructive''\<rparr>]
   \<and> carbon_credits (fst (handleVerifyProject (verify_ok\<lparr>credit_fault := Some (Error ''quota'')\<rparr>)
                  ''P1'' Verified store0 dashboard1)) = []"
proof -
  have a: "update_fault (verify_ok\<lparr>certificate_fault := Some (Error ''denied'')\<rparr>) = None"
    "credit_fault (verify_ok\<lparr>certificate_fault := Some (Error ''denied'')\<rparr>) = None"
    "certificate_fault (verify_ok\<lparr>certificate_fault := Some (Error ''denied'')\<rparr>) = Some (Error ''denied'')"
    by (simp_all add: verify_ok_def)
  have b: "update_fault (verify_ok\<lparr>credit_fault := Some (Error ''quota'')\<rparr>) = None"
    "credit_fault (verify_ok\<lparr>credit_fault := Some (Error ''quota'')\<rparr>) = Some (Error ''quota'')"
    by (simp_all add: verify_ok_def)
  from certificate_failure_best_effort [OF a(1) find_P1_dashboard1, of "Error ''denied''" store0]
  have first: "toasts (snd (handleVerifyProject (verify_ok\<lparr>certificate_fault := Some (Error ''denied'')\<rparr>) ''P1''
                  Verified store0 dashboard1)) =
     [\<lparr>title = ''Success'',
       description = ''Project verified successfully and certificate auto-generated'',
       variant = None\<rparr>]
   \<and> console (snd (handleVerifyProject (verify_ok\<lparr>certificate_fault := Some (Error ''denied'')\<rparr>) ''P1''
                  Verified store0 dashboard1)) =
     [(''Error auto-generating certificate:'', Error ''denied'')]
   \<and> certificates (fst (handleVerifyProject (verify_ok\<lparr>certificate_fault := Some (Error ''denied'')\<rparr>)
                  ''P1'' Verified store0 dashboard1)) = []
   \<and> carbon_credits (fst (handleVerifyProject (verify_ok\<lparr>certificate_fault := Some (Error ''denied'')\<rparr>)
                  ''P1'' Verified store0 dashboard1)) =
     [\<lparr>cc_project_id = ''P1'', cc_owner_id = ''U1'', cc_credits_amount = 500, cc_status = ''active''\<rparr>]"
    by (simp add: a pp_row_join project_P1_fields dashboard1_cells store0_tables)
  from certificate_failure_best_effort [OF b(1) find_P1_dashboard1, of "Error ''quota''" store0]
  have second: "toasts (snd (handleVerifyProject (verify_ok\<lparr>credit_fault := Some (Error ''quota'')\<rparr>) ''P1''
                  Verified store0 dashboard1)) =
     [\<lparr>title = ''Error'', description = ''quota'', variant = Some ''destructive''\<rparr>]
   \<and> carbon_credits (fst (handleVerifyProject (verify_ok\<lparr>credit_fault := Some (Error ''quota'')\<rparr>)
                  ''P1'' Verified store0 dashboard1)) = []"
    by (simp add: b dashboard1_cells store0_tables)
  from first second show ?thesis by blast
qed

text \<open>
  C8. Deciding is not idempotent: there are a store with one project of some id and no
  carbon credit, and a dashboard that lists the project, such that two calls of
  \<open>handleVerifyProject\<close> with status verified for this id, the second on the store the
  first one left and from a dashboard that still lists the project, leave two carbon
  credits for the project.
\<close>

theorem decideProject_twice_two_credits:
  "\<exists>env projectId d c.
     length (filter (\<lambda>r. pj_id r = projectId) (projects d)) = 1
   \<and> carbon_credits d = []
   \<and> length (filter (\<lambda>x. cc_project_id x = projectId)
        (carbon_credits (fst (handleVerifyProject env projectId Verified
           (fst (handleVerifyProject env projectId Verified d c)) c)))) = 2"
proof (intro exI conjI)
  show "length (filter (\<lambda>r. pj_id r = ''P1'') (projects store0)) = 1"
    by (simp add: store0_def project_P1_def project_P2_def project_P3_def project_P4_def)
  show "carbon_credits store0 = []"
    by (simp add: store0_def)
  have one: "carbon_credits (fst (handleVerifyProject verify_ok ''P1'' Verified store0 dashboard1)) =
      [\<lparr>cc_project_id = ''P1'', cc_owner_id = ''U1'', cc_credits_amount = 500, cc_status = ''active''\<rparr>]"
    using handleVerifyProject_verified_listed(1)
            [OF verify_ok_fields(3) find_P1_dashboard1 verify_ok_fields(4), of store0]
    by (simp add: pp_row_join project_P1_fields store0_tables)
  have two: "carbon_credits (fst (handleVerifyProject verify_ok ''P1'' Verified
               (fst (handleVerifyProject verify_ok ''P1'' Verified store0 dashboard1)) dashboard1)) =
      [\<lparr>cc_project_id = ''P1'', cc_owner_id = ''U1'', cc_credits_amount = 500, cc_status = ''active''\<rparr>,
       \<lparr>cc_project_id = ''P1'', cc_owner_id = ''U1'', cc_credits_amount = 500, cc_status = ''active''\<rparr>]"
    using handleVerifyProject_verified_listed(1)
            [OF verify_ok_fields(3) find_P1_dashboard1 verify_ok_fields(4),
             of "fst (handleVerifyProject verify_ok ''P1'' Verified store0 dashboard1)"]
    by (simp add: pp_row_join project_P1_fields one)
  show "length (filter (\<lambda>x. cc_project_id x = ''P1'')
        (carbon_credits (fst (handleVerifyProject verify_ok ''P1'' Verified
           (fst (handleVerifyProject verify_ok ''P1'' Verified store0 dashboard1)) dashboard1)))) = 2"
    by (simp add: two)
qed

text \<open>
  The second call above is made from a dashboard that still lists the project: another
  verifier's, or the same one before its refresh has arrived. From the dashboard that the
  first call leaves, refreshed by a successful read, the project is no longer listed and a
  second call inserts no credit.
\<close>

lemma second_decision_after_refresh:
  assumes "update_fault env = None" and "credit_fault env = None"
    and "pending_fault (verify_refresh env) = None"
  shows "carbon_credits
           (fst (handleVerifyProject env projectId Verified
                   (fst (handleVerifyProject env projectId Verified d c))
                   (snd (handleVerifyProject env projectId Verified d c)))) =
         carbon_credits (fst (handleVerifyProject env projectId Verified d c))"
proof -
  let ?d1 = "fst (handleVerifyProject env projectId Verified d c)"
  let ?c1 = "snd (handleVerifyProject env projectId Verified d c)"
  have "projects ?d1 = projects (update_project projectId ''verified'' (map_option pf_id (profile c))
          (verificationNotes c) (Some (verify_clock env)) d)"
    using assms(1) by (simp add: handleVerifyProject_verified_db issue_credit_projects)
  then have "\<forall>r \<in> set (projects ?d1). pj_id r = projectId \<longrightarrow> pj_status r = ''verified''"
    using updated_rows_status by simp
  then have "projectId \<notin> set (map (\<lambda>q. pj_id (pp_row q)) (select_pending_projects ?d1))"
    by (rule verified_rows_not_pending)
  then have "projectId \<notin> set (map (\<lambda>q. pj_id (pp_row q)) (pendingProjects ?c1))"
    using handleVerifyProject_verified_refreshed [OF assms] by simp
  then have "find (\<lambda>q. pj_id (pp_row q) = projectId) (pendingProjects ?c1) = None"
    by (rule find_absent_key)
  then show ?thesis
    using assms(1)
    by (simp add: handleVerifyProject_verified_db issue_credit_unlisted update_project_tables)
qed

section \<open>Deciding a certificate request\<close>

lemma certificate_requests_update:
  "certificate_requests (update_certificate_request uid requestId st t p n d) =
     map (\<lambda>r. if rq_id r = requestId \<and> request_updatable d uid r
              then r\<lparr>rq_status := st,
                     rq_processed_at := Some t,
                     rq_processed_by := (case p of None \<Rightarrow> rq_processed_by r | Some x \<Rightarrow> Some x),
                     rq_notes := (case n of None \<Rightarrow> rq_notes r | Some x \<Rightarrow> Some x)\<rparr>
              else r) (certificate_requests d)"
  by (simp add: update_certificate_request_def)

lemma update_certificate_request_tables:
  "certificates (update_certificate_request uid requestId st t p n d) = certificates d"
  "carbon_credits (update_certificate_request uid requestId st t p n d) = carbon_credits d"
  "projects (update_certificate_request uid requestId st t p n d) = projects d"
  "profiles (update_certificate_request uid requestId st t p n d) = profiles d"
  by (simp_all add: update_certificate_request_def)

lemma handleCertificateRequest_db:
  assumes "request_update_fault env = None"
  shows "fst (handleCertificateRequest env requestId projectId status n d c) =
     (let d1 = update_certificate_request (session_uid c) requestId (request_status_str status)
                 (request_clock env) (map_option pf_id (profile c)) n d
      in if status = Approved \<and> request_certificate_fault env = None
         then insert_certificate \<lparr>ct_project_id = projectId,
                                  ct_generated_by = map_option pf_id (profile c),
                                  ct_certificate_url = None\<rparr> d1
         else d1)"
  using assms
  by (simp add: handleCertificateRequest_def gateway_write_def Let_def split: option.splits)

lemma handleCertificateRequest_toasts:
  assumes "request_update_fault env = None"
  shows "toasts (snd (handleCertificateRequest env requestId projectId status n d c)) =
     toasts c @
       [case (if status = Approved then request_certificate_fault env else None) of
          Some certificateError \<Rightarrow>
            \<lparr>title = ''Error'', description = request_error_message certificateError,
             variant = Some ''destructive''\<rparr>
        | None \<Rightarrow>
            \<lparr>title = ''Certificate Request Processed'',
             description = ''Certificate request has been '' @ request_status_str status,
             variant = None\<rparr>]"
  using assms
  by (simp add: handleCertificateRequest_def gateway_write_def Let_def error_toast_def fetch_keeps
        split: option.splits)

text \<open>
  C4. When the update of the request succeeds and the insert of the certificate fails
  with \<open>e\<close>, \<open>handleCertificateRequest\<close> with status approved shows the toast of the
  error, with the message of \<open>e\<close>, and not the toast of success; no certificate is
  created; and, the signed-in user being a verifier or an admin, every request with this
  id has status approved afterwards.
\<close>

theorem request_certificate_failure_is_fatal:
  assumes "request_update_fault env = None"
    and "request_certificate_fault env = Some e"
  shows "toasts (snd (handleCertificateRequest env requestId projectId Approved n d c)) =
           toasts c @ [\<lparr>title = ''Error'', description = request_error_message e,
                         variant = Some ''destructive''\<rparr>]
       \<and> certificates (fst (handleCertificateRequest env requestId projectId Approved n d c)) =
           certificates d
       \<and> (is_verifier_or_admin d (session_uid c) \<longrightarrow>
            (\<forall>r \<in> set (certificate_requests
                           (fst (handleCertificateRequest env requestId projectId Approved n d c))).
                rq_id r = requestId \<longrightarrow> rq_status r = ''approved''))"
proof -
  have db: "fst (handleCertificateRequest env requestId projectId Approved n d c) =
      update_certificate_request (session_uid c) requestId ''approved''
        (request_clock env) (map_option pf_id (profile c)) n d"
    using assms by (simp add: handleCertificateRequest_db)
  have rows: "\<forall>r \<in> set (certificate_requests (update_certificate_request (session_uid c) requestId
        ''approved'' (request_clock env) (map_option pf_id (profile c)) n d)).
             rq_id r = requestId \<longrightarrow> rq_status r = ''approved''"
    if "is_verifier_or_admin d (session_uid c)"
    unfolding certificate_requests_update
    using that by (intro map_if_all) (simp_all add: request_updatable_def)
  have ts: "toasts (snd (handleCertificateRequest env requestId projectId Approved n d c)) =
           toasts c @ [\<lparr>title = ''Error'', description = request_error_message e,
                         variant = Some ''destructive''\<rparr>]"
    using assms by (simp add: handleCertificateRequest_toasts)
  have cs: "certificates (fst (handleCertificateRequest env requestId projectId Approved n d c)) =
           certificates d"
    by (simp add: db update_certificate_request_tables)
  from ts cs rows show ?thesis unfolding db by blast
qed

lemma verifier_session_store0: "is_verifier_or_admin store0 (Some ''auth-V1'')"
  by (simp add: is_verifier_or_admin_def store0_def submitter_U1_def verifier_V1_def)

lemma request_ok_fields:
  "request_clock request_ok = 2000" "request_update_fault request_ok = None"
  "request_certificate_fault request_ok = None"
  by (simp_all add: request_ok_def)

theorem request_certificate_failure_is_fatal_witness:
  "toasts (snd (handleCertificateRequest (request_ok\<lparr>request_certificate_fault := Some (Error ''denied'')\<rparr>)
             ''R1'' ''P3'' Approved None store0 dashboard1)) =
     [\<lparr>title = ''Error'', description = ''denied'', variant = Some ''destructive''\<rparr>]
   \<and> certificates (fst (handleCertificateRequest
             (request_ok\<lparr>request_certificate_fault := Some (Error ''denied'')\<rparr>)
             ''R1'' ''P3'' Approved None store0 dashboard1)) = []
   \<and> certificate_requests (fst (handleCertificateRequest
             (request_ok\<lparr>request_certificate_fault := Some (Error ''denied'')\<rparr>)
             ''R1'' ''P3'' Approved None store0 dashboard1)) =
     [request_R1\<lparr>rq_status := ''approved'', rq_processed_at := Some 2000,
                  rq_processed_by := Some ''V1''\<rparr>]"
proof -
  let ?env = "request_ok\<lparr>request_certificate_fault := Some (Error ''denied'')\<rparr>"
  have a: "request_update_fault ?env = None" "request_certificate_fault ?env = Some (Error ''denied'')"
    "request_clock ?env = 2000"
    by (simp_all add: request_ok_def)
  have s: "is_verifier_or_admin store0 (session_uid dashboard1)"
    by (simp add: dashboard1_cells verifier_session_store0)
  have rows: "certificate_requests (fst (handleCertificateRequest ?env ''R1'' ''P3'' Approved None store0 dashboard1)) =
     [request_R1\<lparr>rq_status := ''approved'', rq_processed_at := Some 2000,
                  rq_processed_by := Some ''V1''\<rparr>]"
    using s by (simp add: handleCertificateRequest_db a certificate_requests_update
                  request_updatable_def store0_tables dashboard1_cells request_R1_def verifier_V1_def)
  from request_certificate_failure_is_fatal [OF a(1,2), of "''R1''" "''P3''" None store0 dashboard1]
  have "toasts (snd (handleCertificateRequest ?env ''R1'' ''P3'' Approved None store0 dashboard1)) =
     [\<lparr>title = ''Error'', description = ''denied'', variant = Some ''destructive''\<rparr>]
   \<and> certificates (fst (handleCertificateRequest ?env ''R1'' ''P3'' Approved None store0 dashboard1)) = []"
    by (simp add: dashboard1_cells store0_tables request_error_message_def)
  with rows show ?thesis by blast
qed

text \<open>
  C7. Let \<open>r\<close> be a request of the store (pending or not: the handler does not look at
  the status), let the signed-in user be a verifier or an admin with profile \<open>p\<close>, and let
  the handler be called with the id and the \<^verbatim>\<open>project_id\<close> of \<open>r\<close>, as both buttons do.
  When the writes succeed, status approved replaces \<open>r\<close> by \<open>r\<close> with status approved,
  \<^verbatim>\<open>processed_by\<close> the id of \<open>p\<close> and \<^verbatim>\<open>processed_at\<close> the time of the decision, and
  appends exactly one certificate, for the project of \<open>r\<close>, generated by \<open>p\<close>. Status
  rejected replaces \<open>r\<close> in the same way with status rejected and creates no certificate.
\<close>

theorem decideRequest_approved_rejected:
  assumes "distinct (map rq_id (certificate_requests d))"
    and "r \<in> set (certificate_requests d)"
    and "is_verifier_or_admin d (session_uid c)"
    and "profile c = Some p"
    and "request_update_fault env = None"
  shows "(request_certificate_fault env = None \<longrightarrow>
            certificate_requests
              (fst (handleCertificateRequest env (rq_id r) (rq_project_id r) Approved n d c)) =
              map (\<lambda>x. if x = r
                       then r\<lparr>rq_status := ''approved'',
                              rq_processed_at := Some (request_clock env),
                              rq_processed_by := Some (pf_id p),
                              rq_notes := (case n of None \<Rightarrow> rq_notes r | Some t \<Rightarrow> Some t)\<rparr>
                       else x) (certificate_requests d)
          \<and> certificates
              (fst (handleCertificateRequest env (rq_id r) (rq_project_id r) Approved n d c)) =
              certificates d @ [\<lparr>ct_project_id = rq_project_id r, ct_generated_by = Some (pf_id p),
                                  ct_certificate_url = None\<rparr>])
       \<and> certificate_requests
              (fst (handleCertificateRequest env (rq_id r) (rq_project_id r) Request_rejected n d c)) =
              map (\<lambda>x. if x = r
                       then r\<lparr>rq_status := ''rejected'',
                              rq_processed_at := Some (request_clock env),
                              rq_processed_by := Some (pf_id p),
                              rq_notes := (case n of None \<Rightarrow> rq_notes r | Some t \<Rightarrow> Some t)\<rparr>
                       else x) (certificate_requests d)
       \<and> certificates
              (fst (handleCertificateRequest env (rq_id r) (rq_project_id r) Request_rejected n d c)) =
              certificates d"
proof -
  have rows: "certificate_requests (update_certificate_request (session_uid c) (rq_id r) st
                 (request_clock env) (Some (pf_id p)) n d) =
              map (\<lambda>x. if x = r
                       then r\<lparr>rq_status := st,
                              rq_processed_at := Some (request_clock env),
                              rq_processed_by := Some (pf_id p),
                              rq_notes := (case n of None \<Rightarrow> rq_notes r | Some t \<Rightarrow> Some t)\<rparr>
                       else x) (certificate_requests d)" for st
  proof -
    have "certificate_requests (update_certificate_request (session_uid c) (rq_id r) st
                 (request_clock env) (Some (pf_id p)) n d) =
              map (\<lambda>x. if rq_id x = rq_id r
                       then x\<lparr>rq_status := st,
                              rq_processed_at := Some (request_clock env),
                              rq_processed_by := Some (pf_id p),
                              rq_notes := (case n of None \<Rightarrow> rq_notes x | Some t \<Rightarrow> Some t)\<rparr>
                       else x) (certificate_requests d)"
      using assms(3) by (simp add: certificate_requests_update request_updatable_def)
    then show ?thesis
      using map_replace_unique [OF assms(1,2)] by simp
  qed
  show ?thesis
    using assms(4,5)
    by (simp add: handleCertificateRequest_db Let_def rows insert_certificate_def
          update_certificate_request_tables)
qed

theorem decideRequest_approved_rejected_witness:
  "certificate_requests (fst (handleCertificateRequest request_ok ''R1'' ''P3'' Approved None store0 dashboard1)) =
     [request_R1\<lparr>rq_status := ''approved'', rq_processed_at := Some 2000,
                  rq_processed_by := Some ''V1''\<rparr>]
   \<and> certificates (fst (handleCertificateRequest request_ok ''R1'' ''P3'' Approved None store0 dashboard1)) =
     [\<lparr>ct_project_id = ''P3'', ct_generated_by = Some ''V1'', ct_certificate_url = None\<rparr>]
   \<and> certificate_requests (fst (handleCertificateRequest request_ok ''R1'' ''P3'' Request_rejected
        (Some ''Certificate request rejected'') store0 dashboard1)) =
     [request_R1\<lparr>rq_status := ''rejected'', rq_processed_at := Some 2000,
                  rq_processed_by := Some ''V1'', rq_notes := Some ''Certificate request rejected''\<rparr>]
   \<and> certificates (fst (handleCertificateRequest request_ok ''R1'' ''P3'' Request_rejected
        (Some ''Certificate request rejected'') store0 dashboard1)) = []"
proof -
  have h1: "distinct (map rq_id (certificate_requests store0))" by (simp add: store0_def)
  have h2: "request_R1 \<in> set (certificate_requests store0)" by (simp add: store0_def)
  have h3: "is_verifier_or_admin store0 (session_uid dashboard1)"
    by (simp add: dashboard1_cells verifier_session_store0)
  have f: "rq_id request_R1 = ''R1''" "rq_project_id request_R1 = ''P3''" "pf_id verifier_V1 = ''V1''"
    by (simp_all add: request_R1_def verifier_V1_def)
  from decideRequest_approved_rejected [OF h1 h2 h3 dashboard1_cells(1) request_ok_fields(2), of None]
  have approved: "certificate_requests (fst (handleCertificateRequest request_ok ''R1'' ''P3'' Approved None store0 dashboard1)) =
     [request_R1\<lparr>rq_status := ''approved'', rq_processed_at := Some 2000,
                  rq_processed_by := Some ''V1''\<rparr>]
   \<and> certificates (fst (handleCertificateRequest request_ok ''R1'' ''P3'' Approved None store0 dashboard1)) =
     [\<lparr>ct_project_id = ''P3'', ct_generated_by = Some ''V1'', ct_certificate_url = None\<rparr>]"
    by (simp add: f request_ok_fields store0_tables)
  from decideRequest_approved_rejected [OF h1 h2 h3 dashboard1_cells(1) request_ok_fields(2),
          of "Some ''Certificate request rejected''"]
  have rejected: "certificate_requests (fst (handleCertificateRequest request_ok ''R1'' ''P3'' Request_rejected
        (Some ''Certificate request rejected'') store0 dashboard1)) =
     [request_R1\<lparr>rq_status := ''rejected'', rq_processed_at := Some 2000,
                  rq_processed_by := Some ''V1'', rq_notes := Some ''Certificate request rejected''\<rparr>]
   \<and> certificates (fst (handleCertificateRequest request_ok ''R1'' ''P3'' Request_rejected
        (Some ''Certificate request rejected'') store0 dashboard1)) = []"
    by (simp add: f request_ok_fields store0_tables)
  from approved rejected show ?thesis by blast
qed

section \<open>Listing and counting\<close>

text \<open>
  C9. When the read succeeds, the list \<open>pendingProjects\<close> that \<open>fetchVerifierData\<close> stores
  holds exactly the projects of the store whose status is pending or under review, each
  as often as the table holds it, in ascending order of \<^verbatim>\<open>submitted_at\<close>; none of its
  elements has status verified or rejected.
\<close>

theorem listPendingProjects_pending_sorted:
  assumes "pending_fault env = None"
  shows "mset (map pp_row (pendingProjects (fetchVerifierData env d c))) =
           mset (filter (\<lambda>p. pj_status p = ''pending'' \<or> pj_status p = ''under_review'') (projects d))
       \<and> sorted (map (\<lambda>q. pj_submitted_at (pp_row q)) (pendingProjects (fetchVerifierData env d c)))
       \<and> (\<forall>q \<in> set (pendingProjects (fetchVerifierData env d c)).
             pj_status (pp_row q) \<noteq> ''verified'' \<and> pj_status (pp_row q) \<noteq> ''rejected'')"
proof -
  let ?pending = "filter (\<lambda>p. pj_status p = ''pending'' \<or> pj_status p = ''under_review'') (projects d)"
  have list: "pendingProjects (fetchVerifierData env d c) = select_pending_projects d"
    using assms by (rule fetch_pendingProjects)
  have m: "mset (map pp_row (select_pending_projects d)) = mset ?pending"
    by (simp add: rows_select_pending)
  have "sorted (map pj_submitted_at (map pp_row (select_pending_projects d)))"
    unfolding rows_select_pending by (rule sorted_sort_key)
  then have s: "sorted (map (\<lambda>q. pj_submitted_at (pp_row q)) (select_pending_projects d))"
    by (simp add: o_def)
  have "\<forall>p \<in> set (map pp_row (select_pending_projects d)).
          pj_status p \<noteq> ''verified'' \<and> pj_status p \<noteq> ''rejected''"
    unfolding rows_select_pending by auto
  then have n: "\<forall>q \<in> set (select_pending_projects d).
             pj_status (pp_row q) \<noteq> ''verified'' \<and> pj_status (pp_row q) \<noteq> ''rejected''"
    by simp
  from m s n show ?thesis unfolding list by blast
qed

theorem listPendingProjects_pending_sorted_witness:
  "pending_fault no_faults = None
   \<and> map pp_row (pendingProjects (fetchVerifierData no_faults store0 dashboard0)) = [project_P2, project_P1]
   \<and> mset [project_P2, project_P1] =
       mset (filter (\<lambda>p. pj_status p = ''pending'' \<or> pj_status p = ''under_review'') (projects store0))
   \<and> sorted (map (\<lambda>q. pj_submitted_at (pp_row q)) (pendingProjects (fetchVerifierData no_faults store0 dashboard0)))"
proof -
  have h: "pending_fault no_faults = None" by (simp add: no_faults_def)
  have rows: "map pp_row (pendingProjects (fetchVerifierData no_faults store0 dashboard0)) = [project_P2, project_P1]"
    using pendingProjects_dashboard1 by (simp add: dashboard1_def pp_row_join)
  from listPendingProjects_pending_sorted [OF h, of store0 dashboard0] rows h
  show ?thesis by simp
qed

lemma count_reviewed:
  "length (filter (\<lambda>s. s = st) (select_reviewed_statuses d)) =
     length (filter (\<lambda>p. pj_verifier_id p \<noteq> None \<and> pj_status p = st) (projects d))"
  by (simp add: select_reviewed_statuses_def filter_map o_def)

text \<open>
  The counter \<open>pendingReviews\<close> is the length of the list of pending projects, which is
  read without the restriction to a non-null \<^verbatim>\<open>verifier_id\<close>: in the small store the two
  pending projects have no verifier, the counter is 2 and the count of the specification
  is 0.
\<close>

theorem computeStats_pending_counter_counterexample:
  "pendingReviews (stats (fetchVerifierData no_faults store0 dashboard0)) \<noteq> spec_pendingReviews store0"
proof -
  have "pendingReviews (stats (fetchVerifierData no_faults store0 dashboard0)) =
          length (select_pending_projects store0)"
    by (simp add: fetchVerifierData_def Let_def gateway_read_def no_faults_def)
  then have code: "pendingReviews (stats (fetchVerifierData no_faults store0 dashboard0)) = 2"
    by (simp add: select_pending_store0)
  have spec: "spec_pendingReviews store0 = 0"
    by (simp add: spec_pendingReviews_def store0_def project_P1_def project_P2_def project_P3_def
          project_P4_def)
  from code spec show ?thesis by simp
qed

text \<open>
  C2, amended. When the reads succeed, \<open>pendingReviews\<close> is the number of all projects
  whose status is pending or under review, whatever their \<^verbatim>\<open>verifier_id\<close>;
  \<open>verifiedProjects\<close> and \<open>rejectedProjects\<close> are the numbers of projects with a non-null
  \<^verbatim>\<open>verifier_id\<close> and status verified, respectively rejected; and \<open>totalReviewed\<close> is
  their sum. Whether the reads succeed or not, \<open>totalReviewed\<close> is the sum of the two
  counters stored with it.
\<close>

theorem computeStats_counters:
  "(pending_fault env = None \<and> stats_fault env = None \<longrightarrow>
      stats (fetchVerifierData env d c) =
        \<lparr>pendingReviews =
           length (filter (\<lambda>p. pj_status p = ''pending'' \<or> pj_status p = ''under_review'') (projects d)),
         verifiedProjects =
           length (filter (\<lambda>p. pj_verifier_id p \<noteq> None \<and> pj_status p = ''verified'') (projects d)),
         rejectedProjects =
           length (filter (\<lambda>p. pj_verifier_id p \<noteq> None \<and> pj_status p = ''rejected'') (projects d)),
         totalReviewed =
           length (filter (\<lambda>p. pj_verifier_id p \<noteq> None \<and> pj_status p = ''verified'') (projects d)) +
           length (filter (\<lambda>p. pj_verifier_id p \<noteq> None \<and> pj_status p = ''rejected'') (projects d))\<rparr>)
   \<and> totalReviewed (stats (fetchVerifierData env d c)) =
       verifiedProjects (stats (fetchVerifierData env d c)) +
       rejectedProjects (stats (fetchVerifierData env d c))"
proof -
  have len: "length (select_pending_projects d) =
      length (filter (\<lambda>p. pj_status p = ''pending'' \<or> pj_status p = ''under_review'') (projects d))"
    by (simp add: select_pending_projects_def)
  show ?thesis
    by (simp add: fetchVerifierData_def Let_def gateway_read_def len count_reviewed)
qed

theorem computeStats_counters_witness:
  "stats (fetchVerifierData no_faults store0 dashboard0) =
     \<lparr>pendingReviews = 2, verifiedProjects = 1, rejectedProjects = 1, totalReviewed = 2\<rparr>"
  using computeStats_counters [of no_faults store0 dashboard0]
  by (simp add: no_faults_def store0_def project_P1_def project_P2_def project_P3_def project_P4_def)

end
